theory Spec2Isabelle
  imports Main
begin

section \<open>The observable-vector list data adapter\<close>

text \<open>
  Embedding of \<^verbatim>\<open>lib/ObservableVectorDataSource.js\<close>. JavaScript numbers used as indices
  and counts are integers (\<open>int\<close>). The observable vector is a list of elements; reading it
  at an index outside \<open>0 .. length - 1\<close> gives JavaScript's \<^verbatim>\<open>undefined\<close>, which is
  \<open>None\<close> here, so the key selector and the mapping take an \<open>'e option\<close>. Both are
  taken to be functions that return a value for every argument and have no effect.
\<close>

subsection \<open>Values\<close>

text \<open>An \<^verbatim>\<open>IItem\<close>: the object literal built by \<^verbatim>\<open>_itemFromIndex\<close>.\<close>

record ('d, 'k) item =
  data :: 'd
  key :: 'k

text \<open>An \<^verbatim>\<open>IFetchResult\<close>: the object literal built by \<^verbatim>\<open>itemsFromIndex\<close>.\<close>

record ('d, 'k) fetchResult =
  absoluteIndex :: int
  atEnd :: bool
  atStart :: bool
  items :: "('d, 'k) item list"
  offset :: int
  totalCount :: int

text \<open>The members of \<^verbatim>\<open>WinJS.UI.FetchError\<close> and the error object made from one.\<close>

datatype fetchError = noResponse | doesNotExist

datatype winjs_error = ErrorFromName fetchError

text \<open>
  A settled \<^verbatim>\<open>WinJS.Promise\<close>: \<^verbatim>\<open>WinJS.Promise.wrap(v)\<close> is fulfilled with \<open>v\<close>,
  \<^verbatim>\<open>WinJS.Promise.wrapError(e)\<close> is rejected with \<open>e\<close>.
\<close>

datatype 'a promise = wrapError winjs_error | wrap 'a

text \<open>The identity of a notification handler object.\<close>

datatype handler = Handler nat

text \<open>The \<^verbatim>\<open>Windows.Foundation.Collections.CollectionChange\<close> enumeration.\<close>

datatype collectionChange = reset | itemInserted | itemRemoved | itemChanged

text \<open>The event argument of \<^verbatim>\<open>"vectorchanged"\<close>.\<close>

record vectorChangedEventArgs =
  collectionChange :: collectionChange
  index :: int

text \<open>
  A call received by a notification handler (\<^verbatim>\<open>IListDataNotificationHandler\<close>);
  a key argument that is \<^verbatim>\<open>null\<close> is \<open>None\<close>.
\<close>

datatype ('d, 'k) notification =
    reload
  | inserted "('d, 'k) item" "'k option" "'k option" int
  | removed "'k option" int
  | changed "('d, 'k) item"
  | beginNotifications
  | endNotifications

text \<open>
  A callback handed to \<^verbatim>\<open>setImmediate\<close>: the closure returned by
  \<^verbatim>\<open>makeCollectionChangeHandler(collectionChange, index)\<close>, or the closure of
  \<^verbatim>\<open>setNotificationHandler\<close> that replays the vector.
\<close>

datatype immediate =
    CollectionChangeHandler collectionChange int
  | ReplayHandler

text \<open>An exception that escapes a callback: a method call on \<^verbatim>\<open>undefined\<close> or \<^verbatim>\<open>null\<close>.\<close>

datatype js_error = TypeError

subsection \<open>State\<close>

text \<open>
  The adapter's fields (\<^verbatim>\<open>_observableVector\<close>, \<^verbatim>\<open>_keySelector\<close>, \<^verbatim>\<open>_mapping\<close>,
  \<^verbatim>\<open>_notificationHandler\<close>), together with the two parts of the host that the adapter
  acts on: the queue of callbacks given to \<^verbatim>\<open>setImmediate\<close>, run first in first out, and
  the trace of calls that notification handlers have received. A handler only records
  what it receives.
\<close>

record ('e, 'k, 'd) adapter =
  observableVector :: "'e list"
  keySelector :: "'e option \<Rightarrow> 'k"
  mapping :: "'e option \<Rightarrow> 'd"
  notificationHandler :: "handler option"
  immediates :: "immediate list"
  delivered :: "(handler \<times> ('d, 'k) notification) list"

text \<open>
  The constructor: it stores its arguments and subscribes to \<^verbatim>\<open>"vectorchanged"\<close> (the
  listener is \<open>vectorchanged\<close> below). No handler is set, nothing is scheduled. When the
  caller passes no mapping the source uses the identity, \<open>default_mapping\<close>.
\<close>

definition ObservableVectorListDataAdapter ::
  "'e list \<Rightarrow> ('e option \<Rightarrow> 'k) \<Rightarrow> ('e option \<Rightarrow> 'd) \<Rightarrow> ('e, 'k, 'd) adapter" where
  "ObservableVectorListDataAdapter vec ks mp =
     \<lparr>observableVector = vec, keySelector = ks, mapping = mp,
      notificationHandler = None, immediates = [], delivered = []\<rparr>"

definition default_mapping :: "'e option \<Rightarrow> 'e option" where
  "default_mapping x = x"

subsection \<open>Reading the vector\<close>

text \<open>\<^verbatim>\<open>this._observableVector.length\<close>\<close>

definition vector_length :: "('e, 'k, 'd) adapter \<Rightarrow> int" where
  "vector_length a = int (length (observableVector a))"

text \<open>\<^verbatim>\<open>this._observableVector[index]\<close>: \<open>None\<close> is \<^verbatim>\<open>undefined\<close>.\<close>

definition vector_at :: "'e list \<Rightarrow> int \<Rightarrow> 'e option" where
  "vector_at vec i = (if 0 \<le> i \<and> i < int (length vec) then Some (vec ! nat i) else None)"

definition itemFromIndex :: "('e, 'k, 'd) adapter \<Rightarrow> int \<Rightarrow> ('d, 'k) item" where
  "itemFromIndex a i =
     (let element = vector_at (observableVector a) i
      in \<lparr>data = mapping a element, key = keySelector a element\<rparr>)"

definition keyFromIndex :: "('e, 'k, 'd) adapter \<Rightarrow> int \<Rightarrow> 'k" where
  "keyFromIndex a i = keySelector a (vector_at (observableVector a) i)"

text \<open>
  Underscore's \<^verbatim>\<open>_.range(start, stop)\<close> with two integer arguments: the integers from
  \<open>start\<close> up to \<open>stop - 1\<close>, none when \<open>stop \<le> start\<close>.
\<close>

definition range_int :: "int \<Rightarrow> int \<Rightarrow> int list" where
  "range_int start stop = [start..stop - 1]"

subsection \<open>Fetching\<close>

definition getCount :: "('e, 'k, 'd) adapter \<Rightarrow> int promise" where
  "getCount a = wrap (vector_length a)"

definition itemsFromIndex ::
  "('e, 'k, 'd) adapter \<Rightarrow> int \<Rightarrow> int \<Rightarrow> int \<Rightarrow> ('d, 'k) fetchResult promise" where
  "itemsFromIndex a i countBefore countAfter =
     (let len = vector_length a in
      if i \<ge> len then wrapError (ErrorFromName doesNotExist)
      else
        let start = max (i - countBefore) 0;
            end = min (i + countAfter) (len - 1)
        in wrap \<lparr>absoluteIndex = i,
                 atEnd = (end = len - 1),
                 atStart = (start = 0),
                 items = map (itemFromIndex a) (range_int start (end + 1)),
                 offset = i - start,
                 totalCount = len\<rparr>)"

definition itemsFromStart :: "('e, 'k, 'd) adapter \<Rightarrow> int \<Rightarrow> ('d, 'k) fetchResult promise" where
  "itemsFromStart a count = itemsFromIndex a 0 0 (count - 1)"

definition itemsFromEnd :: "('e, 'k, 'd) adapter \<Rightarrow> int \<Rightarrow> ('d, 'k) fetchResult promise" where
  "itemsFromEnd a count = itemsFromIndex a (vector_length a - 1) (count - 1) 0"

subsection \<open>Notifications\<close>

text \<open>
  \<^verbatim>\<open>setImmediate(callback)\<close>: the callback joins the end of the host's queue. Nothing
  of it runs inside the call.
\<close>

definition setImmediate :: "immediate \<Rightarrow> ('e, 'k, 'd) adapter \<Rightarrow> ('e, 'k, 'd) adapter" where
  "setImmediate callback a = a\<lparr>immediates := immediates a @ [callback]\<rparr>"

text \<open>
  A method call \<^verbatim>\<open>that._notificationHandler.m(...)\<close>: the handler that is set when the
  call is made receives it; with no handler set the call throws.
\<close>

definition notify ::
  "('d, 'k) notification \<Rightarrow> ('e, 'k, 'd) adapter \<Rightarrow> js_error + ('e, 'k, 'd) adapter" where
  "notify n a =
     (case notificationHandler a of
        None \<Rightarrow> Inl TypeError
      | Some h \<Rightarrow> Inr (a\<lparr>delivered := delivered a @ [(h, n)]\<rparr>))"

definition notifyInsertedAtIndex ::
  "int \<Rightarrow> ('e, 'k, 'd) adapter \<Rightarrow> js_error + ('e, 'k, 'd) adapter" where
  "notifyInsertedAtIndex i a =
     (let previousKey = (if i = 0 then None else Some (keyFromIndex a (i - 1)));
          nextKey = (if i < vector_length a - 1 then Some (keyFromIndex a (i + 1)) else None)
      in notify (inserted (itemFromIndex a i) previousKey nextKey i) a)"

text \<open>
  The body of \<^verbatim>\<open>that._observableVector.forEach(function (data, i) { ... })\<close> run for the
  given indices in order; an exception ends the iteration.
\<close>

fun forEach :: "int list \<Rightarrow> ('e, 'k, 'd) adapter \<Rightarrow> js_error + ('e, 'k, 'd) adapter" where
  "forEach [] a = Inr a"
| "forEach (i # rest) a =
     (case notifyInsertedAtIndex i a of Inl e \<Rightarrow> Inl e | Inr a' \<Rightarrow> forEach rest a')"

text \<open>
  The listener that the constructor adds for \<^verbatim>\<open>"vectorchanged"\<close>: it returns at once
  when no handler is set, and otherwise schedules the closure made by
  \<^verbatim>\<open>makeCollectionChangeHandler(ev.collectionChange, ev.index)\<close>.
\<close>

definition vectorchanged ::
  "vectorChangedEventArgs \<Rightarrow> ('e, 'k, 'd) adapter \<Rightarrow> ('e, 'k, 'd) adapter" where
  "vectorchanged ev a =
     (if notificationHandler a = None then a
      else setImmediate (CollectionChangeHandler (collectionChange ev) (index ev)) a)"

text \<open>
  \<^verbatim>\<open>setNotificationHandler(notificationHandler)\<close>, called with a handler object
  (\<^verbatim>\<open>IListDataNotificationHandler\<close>): it stores the handler and schedules the replay.
\<close>

definition setNotificationHandler ::
  "handler \<Rightarrow> ('e, 'k, 'd) adapter \<Rightarrow> ('e, 'k, 'd) adapter" where
  "setNotificationHandler h a = setImmediate ReplayHandler (a\<lparr>notificationHandler := Some h\<rparr>)"

text \<open>
  Running a scheduled callback: the \<^verbatim>\<open>switch\<close> of the closure made by
  \<^verbatim>\<open>makeCollectionChangeHandler\<close>, or the replay closure of
  \<^verbatim>\<open>setNotificationHandler\<close>. Both read the adapter's fields when they run.
\<close>

fun run_immediate ::
  "immediate \<Rightarrow> ('e, 'k, 'd) adapter \<Rightarrow> js_error + ('e, 'k, 'd) adapter" where
  "run_immediate (CollectionChangeHandler reset i) a = notify reload a"
| "run_immediate (CollectionChangeHandler itemInserted i) a = notifyInsertedAtIndex i a"
| "run_immediate (CollectionChangeHandler itemRemoved i) a = notify (removed None i) a"
| "run_immediate (CollectionChangeHandler itemChanged i) a = notify (changed (itemFromIndex a i)) a"
| "run_immediate ReplayHandler a =
     (if vector_length a > 0 then
        (case notify beginNotifications a of
           Inl e \<Rightarrow> Inl e
         | Inr a1 \<Rightarrow>
             (case forEach (range_int 0 (vector_length a1)) a1 of
                Inl e \<Rightarrow> Inl e
              | Inr a2 \<Rightarrow> notify endNotifications a2))
      else Inr a)"

subsection \<open>The host\<close>

text \<open>
  The owner of the vector changes its contents and raises \<^verbatim>\<open>"vectorchanged"\<close>, which
  calls the adapter's listener before the mutating call returns. The new contents and
  the event argument are whatever the owner chooses.
\<close>

definition vector_mutation ::
  "'e list \<times> vectorChangedEventArgs \<Rightarrow> ('e, 'k, 'd) adapter \<Rightarrow> ('e, 'k, 'd) adapter" where
  "vector_mutation m a = vectorchanged (snd m) (a\<lparr>observableVector := fst m\<rparr>)"

text \<open>
  One scheduling tick: the host takes the oldest scheduled callback off its queue and
  runs it. \<open>ticks n\<close> are \<open>n\<close> ticks in a row, ended by the first exception that
  escapes a callback.
\<close>

definition tick :: "('e, 'k, 'd) adapter \<Rightarrow> js_error + ('e, 'k, 'd) adapter" where
  "tick a =
     (case immediates a of
        [] \<Rightarrow> Inr a
      | callback # rest \<Rightarrow> run_immediate callback (a\<lparr>immediates := rest\<rparr>))"




text \<open>
  Every way of acting on the adapter: its public methods, the event listener, and the
  host running one scheduled callback. \<open>perform\<close> gives what the caller gets back and
  the state afterwards.
\<close>

datatype operation =
    GetCount
  | ItemsFromIndex int int int
  | ItemsFromStart int
  | ItemsFromEnd int
  | SetNotificationHandler handler
  | VectorChanged vectorChangedEventArgs
  | Tick

datatype ('d, 'k) outcome =
    Count "int promise"
  | Fetched "('d, 'k) fetchResult promise"
  | Returned
  | Uncaught js_error

fun perform ::
  "operation \<Rightarrow> ('e, 'k, 'd) adapter \<Rightarrow> ('d, 'k) outcome \<times> ('e, 'k, 'd) adapter" where
  "perform GetCount a = (Count (getCount a), a)"
| "perform (ItemsFromIndex i countBefore countAfter) a =
     (Fetched (itemsFromIndex a i countBefore countAfter), a)"
| "perform (ItemsFromStart count) a = (Fetched (itemsFromStart a count), a)"
| "perform (ItemsFromEnd count) a = (Fetched (itemsFromEnd a count), a)"
| "perform (SetNotificationHandler h) a = (Returned, setNotificationHandler h a)"
| "perform (VectorChanged ev) a = (Returned, vectorchanged ev a)"
| "perform Tick a =
     (case tick a of
        Inl e \<Rightarrow> (Uncaught e, a\<lparr>immediates := tl (immediates a)\<rparr>)
      | Inr a' \<Rightarrow> (Returned, a'))"

subsection \<open>Notions used to state the properties\<close>

text \<open>The item the adapter builds from an element that is present.\<close>

definition item_of :: "('e, 'k, 'd) adapter \<Rightarrow> 'e \<Rightarrow> ('d, 'k) item" where
  "item_of a e = \<lparr>data = mapping a (Some e), key = keySelector a (Some e)\<rparr>"

text \<open>The elements at positions \<open>start .. end\<close> of a list.\<close>

definition slice :: "'e list \<Rightarrow> int \<Rightarrow> int \<Rightarrow> 'e list" where
  "slice vec start end = take (nat (end - start + 1)) (drop (nat start) vec)"

text \<open>
  The handler call that the source makes for one change of the vector, read off the
  \<^verbatim>\<open>switch\<close> the way the specification lists it: reset gives \<open>reload\<close>; an item
  inserted at \<open>i\<close> gives \<open>inserted\<close> with the item at \<open>i\<close>, the key at \<open>i - 1\<close> or
  \<^verbatim>\<open>null\<close>, the key at \<open>i + 1\<close> or \<^verbatim>\<open>null\<close>, and \<open>i\<close>; an item removed at \<open>i\<close> gives
  \<open>removed\<close> with \<^verbatim>\<open>null\<close> and \<open>i\<close>; an item changed at \<open>i\<close> gives \<open>changed\<close> with the
  item at \<open>i\<close>.
\<close>

definition translation :: "('e, 'k, 'd) adapter \<Rightarrow> vectorChangedEventArgs \<Rightarrow> ('d, 'k) notification" where
  "translation a ev =
     (case collectionChange ev of
        reset \<Rightarrow> reload
      | itemInserted \<Rightarrow>
          inserted (itemFromIndex a (index ev))
            (if index ev = 0 then None else Some (keyFromIndex a (index ev - 1)))
            (if index ev \<ge> vector_length a - 1 then None else Some (keyFromIndex a (index ev + 1)))
            (index ev)
      | itemRemoved \<Rightarrow> removed None (index ev)
      | itemChanged \<Rightarrow> changed (itemFromIndex a (index ev)))"

text \<open>
  The calls of one replay: nothing for an empty vector, otherwise \<open>beginNotifications\<close>,
  one \<open>inserted\<close> for each position in ascending order, \<open>endNotifications\<close>.
\<close>

definition replay :: "('e, 'k, 'd) adapter \<Rightarrow> ('d, 'k) notification list" where
  "replay a =
     (if observableVector a = [] then []
      else beginNotifications #
           map (\<lambda>i. translation a \<lparr>collectionChange = itemInserted, index = i\<rparr>)
             [0..vector_length a - 1] @
           [endNotifications])"

text \<open>A vector of two numbers, keyed by the number itself, with the default mapping.\<close>

definition example_key :: "nat option \<Rightarrow> nat" where
  "example_key e = (case e of None \<Rightarrow> 0 | Some n \<Rightarrow> n)"

definition example_adapter :: "(nat, nat, nat option) adapter" where
  "example_adapter = ObservableVectorListDataAdapter [10, 20] example_key default_mapping"

text \<open>An adapter over the empty vector.\<close>

definition empty_adapter :: "(nat, nat, nat option) adapter" where
  "empty_adapter = ObservableVectorListDataAdapter [] example_key default_mapping"

text \<open>The same adapter with a handler set and nothing scheduled.\<close>

definition attached_adapter :: "(nat, nat, nat option) adapter" where
  "attached_adapter = example_adapter\<lparr>notificationHandler := Some (Handler 1)\<rparr>"


section \<open>The flyout component\<close>

text \<open>
  Modelled from the spec: the component constructor factory \<^verbatim>\<open>lib/ui/components\<close>
  (\<^verbatim>\<open>createFlyoutConstructor\<close>) is not among the sources, only its tests
  \<^verbatim>\<open>test/ui_components.coffee\<close> are. The definitions of this section follow the
  specification's sections 4.2 and 7. An anchor is an element \<open>'el\<close>; an absent option,
  property or argument is \<open>None\<close>.
\<close>

text \<open>Modelled from the spec: the error of \<^verbatim>\<open>show\<close> with no anchor established.\<close>

datatype component_error = NoAnchor

text \<open>
  Modelled from the spec: how a call on the component ends, with a promise that is
  fulfilled or rejected, or with an exception thrown out of the call.
\<close>

datatype 'v completion = Fulfilled 'v | Rejected component_error | Thrown component_error

text \<open>
  Modelled from the spec: the native control of the root element, with its settable
  \<^verbatim>\<open>anchor\<close> property and the arguments of the calls of its \<^verbatim>\<open>show\<close>, oldest first.
\<close>

record 'el winControl =
  control_anchor :: "'el option"
  show_calls :: "'el option list"

text \<open>
  Modelled from the spec: a component instance, with its mutable \<^verbatim>\<open>anchor\<close> property
  and the native control it owns.
\<close>

record 'el flyout =
  anchor :: "'el option"
  winControl :: "'el winControl"

text \<open>
  Modelled from the spec: construction with the \<^verbatim>\<open>anchor\<close> option given or not; the
  native control is fresh.
\<close>

definition FlyoutComponent :: "'el option \<Rightarrow> 'el flyout" where
  "FlyoutComponent options_anchor =
     \<lparr>anchor = options_anchor, winControl = \<lparr>control_anchor = None, show_calls = []\<rparr>\<rparr>"

text \<open>Modelled from the spec: assignment to the component's \<^verbatim>\<open>anchor\<close> property.\<close>

definition assign_anchor :: "'el \<Rightarrow> 'el flyout \<Rightarrow> 'el flyout" where
  "assign_anchor el c = c\<lparr>anchor := Some el\<rparr>"

text \<open>
  Modelled from the spec: \<^verbatim>\<open>process()\<close>; an anchor that is set is propagated to the
  native control's anchor property upon processing.
\<close>

definition flyout_process :: "'el flyout \<Rightarrow> 'el flyout" where
  "flyout_process c =
     (case anchor c of
        None \<Rightarrow> c
      | Some el \<Rightarrow> c\<lparr>winControl := (winControl c)\<lparr>control_anchor := Some el\<rparr>\<rparr>)"

text \<open>
  Modelled from the spec: \<^verbatim>\<open>show(anchorArg?)\<close>; it fails with an error, as a rejected
  promise and without calling the native control, if no anchor has been established by
  constructor option, property assignment or argument; otherwise it proxies to the
  native control's \<^verbatim>\<open>show\<close> with its argument.
\<close>

definition flyout_show :: "'el option \<Rightarrow> 'el flyout \<Rightarrow> unit completion \<times> 'el flyout" where
  "flyout_show anchorArg c =
     (if anchor c = None \<and> anchorArg = None then (Rejected NoAnchor, c)
      else (Fulfilled (),
            c\<lparr>winControl := (winControl c)\<lparr>show_calls := show_calls (winControl c) @ [anchorArg]\<rparr>\<rparr>))"

section \<open>Fetch results\<close>

lemma vector_at_in_range:
  "0 \<le> i \<Longrightarrow> i < int (length vec) \<Longrightarrow> vector_at vec i = Some (vec ! nat i)"
  by (simp add: vector_at_def)

lemma itemFromIndex_in_range:
  "0 \<le> i \<Longrightarrow> i < vector_length a \<Longrightarrow> itemFromIndex a i = item_of a (observableVector a ! nat i)"
  by (simp add: itemFromIndex_def item_of_def vector_length_def vector_at_def Let_def)

lemma length_range: "length (range_int start stop) = nat (stop - start)"
  by (simp add: range_int_def)

lemma nth_range: "int k < stop - start \<Longrightarrow> range_int start stop ! k = start + int k"
  by (simp add: range_int_def)

lemma map_itemFromIndex_range:
  assumes "0 \<le> start" and "end < vector_length a"
  shows "map (itemFromIndex a) (range_int start (end + 1)) =
         map (item_of a) (slice (observableVector a) start end)"
proof (rule nth_equalityI)
  show "length (map (itemFromIndex a) (range_int start (end + 1))) =
        length (map (item_of a) (slice (observableVector a) start end))"
    using assms by (simp add: length_range slice_def vector_length_def)
next
  fix k
  assume "k < length (map (itemFromIndex a) (range_int start (end + 1)))"
  then have k: "int k < end + 1 - start"
    by (simp add: length_range)
  then have pos: "0 \<le> start + int k" and lt: "start + int k < vector_length a"
    using assms by linarith+
  have idx: "nat start + k = nat (start + int k)"
    using assms(1) by linarith
  have inb: "nat start + k < length (observableVector a)"
    using lt assms(1) by (simp add: vector_length_def)
  have hk: "k < nat (end - start + 1)"
    using k by linarith
  have sl: "slice (observableVector a) start end ! k = observableVector a ! (nat start + k)"
    using hk inb by (simp add: slice_def)
  have kl: "k < length (slice (observableVector a) start end)"
    using hk inb by (simp add: slice_def)
  have rg: "range_int start (end + 1) ! k = start + int k"
    using k by (rule nth_range)
  have "map (itemFromIndex a) (range_int start (end + 1)) ! k = itemFromIndex a (start + int k)"
    using hk rg by (simp add: length_range)
  also have "\<dots> = item_of a (observableVector a ! nat (start + int k))"
    using pos lt by (rule itemFromIndex_in_range)
  also have "\<dots> = map (item_of a) (slice (observableVector a) start end) ! k"
    using kl sl idx by simp
  finally show "map (itemFromIndex a) (range_int start (end + 1)) ! k =
                map (item_of a) (slice (observableVector a) start end) ! k" .
qed

lemma itemsFromIndex_window:
  assumes "0 \<le> i" and "i < vector_length a" and "0 \<le> countBefore" and "0 \<le> countAfter"
  shows "itemsFromIndex a i countBefore countAfter =
         wrap \<lparr>absoluteIndex = i,
               atEnd = (min (vector_length a - 1) (i + countAfter) = vector_length a - 1),
               atStart = (max 0 (i - countBefore) = 0),
               items = map (item_of a)
                 (slice (observableVector a)
                    (max 0 (i - countBefore)) (min (vector_length a - 1) (i + countAfter))),
               offset = i - max 0 (i - countBefore),
               totalCount = vector_length a\<rparr>"
proof -
  have s0: "0 \<le> max (i - countBefore) 0"
    by simp
  have el: "min (i + countAfter) (vector_length a - 1) < vector_length a"
    by simp
  show ?thesis
    using assms(2) map_itemFromIndex_range [OF s0 el]
    by (simp add: itemsFromIndex_def Let_def max.commute min.commute)
qed

lemma slice_from_start: "0 \<le> e \<Longrightarrow> slice vec 0 e = take (nat (e + 1)) vec"
  by (simp add: slice_def)

lemma slice_to_end: "0 \<le> s \<Longrightarrow> slice vec s (int (length vec) - 1) = drop (nat s) vec"
  by (simp add: slice_def)

lemmas example_defs = example_adapter_def ObservableVectorListDataAdapter_def example_key_def
  default_mapping_def vector_length_def

lemmas attached_defs = attached_adapter_def example_defs

text \<open>
  Claim C1. For an index inside the vector and non-negative \<open>countBefore\<close> and
  \<open>countAfter\<close>, \<open>itemsFromIndex\<close> is fulfilled with the fetch result whose items are the
  \<open>{data, key}\<close> pairs of the vector positions \<open>start .. end\<close>, where
  \<open>start = max 0 (index - countBefore)\<close> and \<open>end = min (len - 1) (index + countAfter)\<close>;
  \<open>absoluteIndex\<close> is the index, \<open>offset\<close> is \<open>index - start\<close>, \<open>atStart\<close> holds iff
  \<open>start = 0\<close>, \<open>atEnd\<close> holds iff \<open>end = len - 1\<close>, \<open>totalCount\<close> is the length, and
  the item at position \<open>offset\<close> has the key of the element at the index.
\<close>

theorem itemsFromIndex_in_bounds:
  assumes "0 \<le> i" and "i < vector_length a" and "0 \<le> countBefore" and "0 \<le> countAfter"
  shows "\<exists>r. itemsFromIndex a i countBefore countAfter = wrap r
           \<and> items r = map (item_of a)
                (slice (observableVector a)
                   (max 0 (i - countBefore)) (min (vector_length a - 1) (i + countAfter)))
           \<and> absoluteIndex r = i
           \<and> offset r = i - max 0 (i - countBefore)
           \<and> (atStart r \<longleftrightarrow> max 0 (i - countBefore) = 0)
           \<and> (atEnd r \<longleftrightarrow> min (vector_length a - 1) (i + countAfter) = vector_length a - 1)
           \<and> totalCount r = vector_length a
           \<and> nat (offset r) < length (items r)
           \<and> key (items r ! nat (offset r)) = keySelector a (Some (observableVector a ! nat i))"
proof -
  define start where "start = max (i - countBefore) 0"
  define en where "en = min (i + countAfter) (vector_length a - 1)"
  define r where
    "r = \<lparr>absoluteIndex = i, atEnd = (en = vector_length a - 1), atStart = (start = 0),
          items = map (itemFromIndex a) (range_int start (en + 1)),
          offset = i - start, totalCount = vector_length a\<rparr>"
  have res: "itemsFromIndex a i countBefore countAfter = wrap r"
    using assms(2) by (simp add: itemsFromIndex_def Let_def r_def start_def en_def)
  have s0: "0 \<le> start" and si: "start \<le> i" and ie: "i \<le> en" and el: "en < vector_length a"
    using assms by (simp_all add: start_def en_def)
  have sw: "max 0 (i - countBefore) = start"
    and ew: "min (vector_length a - 1) (i + countAfter) = en"
    by (simp_all add: start_def en_def max.commute min.commute)
  have its: "items r = map (item_of a) (slice (observableVector a) start en)"
    using map_itemFromIndex_range [OF s0 el] by (simp add: r_def)
  have off: "int (nat (i - start)) < en + 1 - start"
    using si ie by simp
  have len: "nat (offset r) < length (items r)"
    using si ie by (simp add: r_def length_range)
  have rg: "range_int start (en + 1) ! nat (i - start) = i"
    using nth_range [of "nat (i - start)" "en + 1" start] si ie by simp
  have "items r ! nat (offset r) = itemFromIndex a i"
    using len rg by (simp add: r_def length_range)
  also have "\<dots> = item_of a (observableVector a ! nat i)"
    using assms(1,2) by (rule itemFromIndex_in_range)
  finally have k: "key (items r ! nat (offset r)) = keySelector a (Some (observableVector a ! nat i))"
    by (simp add: item_of_def)
  show ?thesis
    unfolding sw ew using res its len k by (intro exI [of _ r]) (simp add: r_def)
qed

text \<open>
  At index 1 of the example vector with \<open>countBefore = 1\<close> and \<open>countAfter = 5\<close> the
  window is the whole vector and the item at offset 1 has key 20.
\<close>

theorem itemsFromIndex_in_bounds_witness:
  "(0::int) \<le> 1 \<and> 1 < vector_length example_adapter \<and> (0::int) \<le> 1 \<and> (0::int) \<le> 5
   \<and> (\<exists>r. itemsFromIndex example_adapter 1 1 5 = wrap r
          \<and> items r = [\<lparr>data = Some 10, key = 10\<rparr>, \<lparr>data = Some 20, key = 20\<rparr>]
          \<and> absoluteIndex r = 1 \<and> offset r = 1 \<and> atStart r \<and> atEnd r \<and> totalCount r = 2
          \<and> key (items r ! 1) = 20)"
  using itemsFromIndex_in_bounds [of 1 example_adapter 1 5]
  by (auto simp add: example_defs item_of_def slice_def)

text \<open>
  Claim C2. \<open>itemsFromIndex\<close> should be rejected with the \<open>doesNotExist\<close> error
  for every index that is out of bounds of the vector, negative indices included. The
  source checks the upper bound only (\<^verbatim>\<open>index >= length\<close>) and has no check of the
  lower bound. At the index \<open>-1\<close> of the example vector the call is fulfilled, with an
  empty window, \<open>absoluteIndex = -1\<close> and \<open>offset = -1\<close>. The two convenience forms
  show the same missing check on the empty vector: \<open>itemsFromStart\<close> asks for index
  \<open>0\<close> and is rejected, \<open>itemsFromEnd\<close> asks for index \<open>-1\<close> and is fulfilled.
\<close>

theorem itemsFromIndex_negative_index:
  "itemsFromIndex example_adapter (- 1) 0 0 =
     wrap \<lparr>absoluteIndex = - 1, atEnd = False, atStart = True, items = [],
           offset = - 1, totalCount = 2\<rparr>
   \<and> itemsFromStart empty_adapter 1 = wrapError (ErrorFromName doesNotExist)
   \<and> itemsFromEnd empty_adapter 1 =
       wrap \<lparr>absoluteIndex = - 1, atEnd = True, atStart = True, items = [],
             offset = - 1, totalCount = 0\<rparr>"
  by (simp add: itemsFromIndex_def itemsFromStart_def itemsFromEnd_def example_adapter_def
      empty_adapter_def ObservableVectorListDataAdapter_def vector_length_def range_int_def
      Let_def)

text \<open>
  Claim C7. For every count, \<open>itemsFromStart count\<close> is \<open>itemsFromIndex 0 0 (count - 1)\<close>
  and \<open>itemsFromEnd count\<close> is \<open>itemsFromIndex (len - 1) (count - 1) 0\<close>; for a
  non-empty vector and \<open>count \<ge> 1\<close> these are the windows of the first and of the last
  \<open>min count len\<close> items.
\<close>

theorem itemsFromStart_itemsFromEnd:
  "itemsFromStart a count = itemsFromIndex a 0 0 (count - 1)
   \<and> itemsFromEnd a count = itemsFromIndex a (vector_length a - 1) (count - 1) 0
   \<and> (observableVector a \<noteq> [] \<and> 1 \<le> count \<longrightarrow>
        (\<exists>r. itemsFromStart a count = wrap r
            \<and> items r = map (item_of a)
                 (take (nat (min count (vector_length a))) (observableVector a))
            \<and> absoluteIndex r = 0 \<and> offset r = 0 \<and> atStart r
            \<and> totalCount r = vector_length a)
      \<and> (\<exists>r. itemsFromEnd a count = wrap r
            \<and> items r = map (item_of a)
                 (drop (length (observableVector a) - nat (min count (vector_length a)))
                    (observableVector a))
            \<and> absoluteIndex r = vector_length a - 1 \<and> atEnd r
            \<and> totalCount r = vector_length a))"
proof -
  have win: "(\<exists>r. itemsFromStart a count = wrap r
            \<and> items r = map (item_of a)
                 (take (nat (min count (vector_length a))) (observableVector a))
            \<and> absoluteIndex r = 0 \<and> offset r = 0 \<and> atStart r
            \<and> totalCount r = vector_length a)
      \<and> (\<exists>r. itemsFromEnd a count = wrap r
            \<and> items r = map (item_of a)
                 (drop (length (observableVector a) - nat (min count (vector_length a)))
                    (observableVector a))
            \<and> absoluteIndex r = vector_length a - 1 \<and> atEnd r
            \<and> totalCount r = vector_length a)"
    if ne: "observableVector a \<noteq> []" and c: "1 \<le> count"
  proof -
    have pos: "0 < vector_length a"
      using ne by (simp add: vector_length_def)
    have e1: "min (vector_length a - 1) (count - 1) + 1 = min count (vector_length a)"
      by simp
    have s1: "slice (observableVector a) 0 (min (vector_length a - 1) (count - 1)) =
              take (nat (min count (vector_length a))) (observableVector a)"
      using pos c by (simp add: slice_from_start e1)
    have d1: "nat (max 0 (vector_length a - count)) =
              length (observableVector a) - nat (min count (vector_length a))"
      using c by (simp add: vector_length_def)
    have s2: "slice (observableVector a) (max 0 (vector_length a - count)) (vector_length a - 1) =
              drop (length (observableVector a) - nat (min count (vector_length a)))
                (observableVector a)"
      using slice_to_end [of "max 0 (vector_length a - count)" "observableVector a"] d1
      by (simp add: vector_length_def)
    have a1: "vector_length a - 1 - (count - 1) = vector_length a - count"
      by simp
    from itemsFromIndex_window [of 0 a 0 "count - 1"] pos c s1
    have start: "\<exists>r. itemsFromStart a count = wrap r
            \<and> items r = map (item_of a)
                 (take (nat (min count (vector_length a))) (observableVector a))
            \<and> absoluteIndex r = 0 \<and> offset r = 0 \<and> atStart r
            \<and> totalCount r = vector_length a"
      by (simp add: itemsFromStart_def)
    from itemsFromIndex_window [of "vector_length a - 1" a "count - 1" 0] pos c s2
    have "\<exists>r. itemsFromEnd a count = wrap r
            \<and> items r = map (item_of a)
                 (drop (length (observableVector a) - nat (min count (vector_length a)))
                    (observableVector a))
            \<and> absoluteIndex r = vector_length a - 1 \<and> atEnd r
            \<and> totalCount r = vector_length a"
      by (simp add: itemsFromEnd_def a1)
    with start show ?thesis ..
  qed
  then show ?thesis
    by (simp add: itemsFromStart_def itemsFromEnd_def)
qed

text \<open>With count 1 the example vector gives its first item and its last item.\<close>

theorem itemsFromStart_itemsFromEnd_witness:
  "observableVector example_adapter \<noteq> [] \<and> (1::int) \<le> 1
   \<and> (\<exists>r. itemsFromStart example_adapter 1 = wrap r
          \<and> items r = [\<lparr>data = Some 10, key = 10\<rparr>])
   \<and> (\<exists>r. itemsFromEnd example_adapter 1 = wrap r
          \<and> items r = [\<lparr>data = Some 20, key = 20\<rparr>])"
  using itemsFromStart_itemsFromEnd [of example_adapter 1, THEN conjunct2, THEN conjunct2]
  by (auto simp add: example_defs item_of_def)

section \<open>Notifications\<close>

subsection \<open>What the reading functions depend on\<close>

lemma vector_length_frame [simp]:
  "vector_length (a\<lparr>delivered := d\<rparr>) = vector_length a"
  "vector_length (a\<lparr>immediates := q\<rparr>) = vector_length a"
  "vector_length (a\<lparr>notificationHandler := h\<rparr>) = vector_length a"
  by (simp_all add: vector_length_def)

lemma itemFromIndex_frame [simp]:
  "itemFromIndex (a\<lparr>delivered := d\<rparr>) = itemFromIndex a"
  "itemFromIndex (a\<lparr>immediates := q\<rparr>) = itemFromIndex a"
  "itemFromIndex (a\<lparr>notificationHandler := h\<rparr>) = itemFromIndex a"
  by (simp_all add: itemFromIndex_def fun_eq_iff)

lemma keyFromIndex_frame [simp]:
  "keyFromIndex (a\<lparr>delivered := d\<rparr>) = keyFromIndex a"
  "keyFromIndex (a\<lparr>immediates := q\<rparr>) = keyFromIndex a"
  "keyFromIndex (a\<lparr>notificationHandler := h\<rparr>) = keyFromIndex a"
  by (simp_all add: keyFromIndex_def fun_eq_iff)

lemma translation_frame [simp]:
  "translation (a\<lparr>delivered := d\<rparr>) = translation a"
  "translation (a\<lparr>immediates := q\<rparr>) = translation a"
  "translation (a\<lparr>notificationHandler := h\<rparr>) = translation a"
  by (simp_all add: translation_def fun_eq_iff split: collectionChange.split)


subsection \<open>Callbacks run with a handler set\<close>

lemma notify_attached:
  "notificationHandler a = Some h \<Longrightarrow> notify n a = Inr (a\<lparr>delivered := delivered a @ [(h, n)]\<rparr>)"
  by (simp add: notify_def)

lemma notifyInsertedAtIndex_attached:
  "notificationHandler a = Some h \<Longrightarrow>
   notifyInsertedAtIndex i a =
     Inr (a\<lparr>delivered := delivered a @
            [(h, translation a \<lparr>collectionChange = itemInserted, index = i\<rparr>)]\<rparr>)"
  by (simp add: notifyInsertedAtIndex_def notify_def translation_def Let_def not_less)

lemma run_CollectionChangeHandler_attached:
  "notificationHandler a = Some h \<Longrightarrow>
   run_immediate (CollectionChangeHandler c i) a =
     Inr (a\<lparr>delivered := delivered a @ [(h, translation a \<lparr>collectionChange = c, index = i\<rparr>)]\<rparr>)"
  by (cases c) (simp_all add: notifyInsertedAtIndex_attached notify_attached, simp_all add: translation_def)

lemma forEach_attached:
  "notificationHandler a = Some h \<Longrightarrow>
   forEach js a =
     Inr (a\<lparr>delivered := delivered a @
            map (\<lambda>i. (h, translation a \<lparr>collectionChange = itemInserted, index = i\<rparr>)) js\<rparr>)"
proof (induction js arbitrary: a)
  case Nil
  then show ?case by simp
next
  case (Cons j js)
  let ?a = "a\<lparr>delivered := delivered a @
            [(h, translation a \<lparr>collectionChange = itemInserted, index = j\<rparr>)]\<rparr>"
  have "notificationHandler ?a = Some h"
    using Cons.prems by simp
  from Cons.IH [OF this] Cons.prems show ?case
    by (simp add: notifyInsertedAtIndex_attached)
qed

lemma run_ReplayHandler_attached:
  "notificationHandler a = Some h \<Longrightarrow>
   run_immediate ReplayHandler a = Inr (a\<lparr>delivered := delivered a @ map (Pair h) (replay a)\<rparr>)"
proof (cases "observableVector a = []")
  case True
  assume "notificationHandler a = Some h"
  with True show ?thesis by (simp add: replay_def vector_length_def)
next
  case False
  assume h: "notificationHandler a = Some h"
  let ?a = "a\<lparr>delivered := delivered a @ [(h, beginNotifications)]\<rparr>"
  have 1: "notificationHandler ?a = Some h" using h by simp
  show ?thesis using False h
    by (simp add: replay_def vector_length_def notify_attached forEach_attached [OF 1] range_int_def comp_def)
qed




lemma run_immediate_vector:
  "run_immediate callback a = Inr a' \<Longrightarrow> observableVector a' = observableVector a"
proof (cases "notificationHandler a")
  case None
  assume r: "run_immediate callback a = Inr a'"
  show ?thesis
  proof (cases callback)
    case (CollectionChangeHandler c i)
    with r None show ?thesis
      by (cases c) (simp_all add: notify_def notifyInsertedAtIndex_def Let_def)
  next
    case ReplayHandler
    with r None show ?thesis
      by (auto simp add: notify_def split: if_splits)
  qed
next
  case (Some h)
  assume r: "run_immediate callback a = Inr a'"
  show ?thesis
  proof (cases callback)
    case (CollectionChangeHandler c i)
    with r run_CollectionChangeHandler_attached [OF Some, of c i] show ?thesis by auto
  next
    case ReplayHandler
    with r run_ReplayHandler_attached [OF Some] show ?thesis by auto
  qed
qed

subsection \<open>Replay on attaching a handler\<close>




subsection \<open>Translation of vector changes\<close>

text \<open>
  Claim C4. An \<open>itemInserted\<close> event at index \<open>i\<close> that arrives while a handler is set
  schedules exactly one callback, and that callback, run with a handler set, makes
  exactly one handler call: \<open>inserted\<close> with the item of position \<open>i\<close>, the previous key
  (\<^verbatim>\<open>null\<close> if \<open>i = 0\<close>, otherwise the key of position \<open>i - 1\<close>), the next key
  (\<^verbatim>\<open>null\<close> if \<open>i \<ge> length - 1\<close>, otherwise the key of position \<open>i + 1\<close>) and \<open>i\<close>. For
  \<open>i\<close> inside the vector the item is the \<open>{data, key}\<close> pair of the element at \<open>i\<close>.
\<close>

theorem itemInserted_notification:
  assumes "notificationHandler a = Some h" and "notificationHandler b = Some h'"
  shows "vectorchanged \<lparr>collectionChange = itemInserted, index = i\<rparr> a =
           a\<lparr>immediates := immediates a @ [CollectionChangeHandler itemInserted i]\<rparr>
         \<and> run_immediate (CollectionChangeHandler itemInserted i) b =
             Inr (b\<lparr>delivered := delivered b @
                    [(h', inserted (itemFromIndex b i)
                            (if i = 0 then None
                             else Some (keySelector b (vector_at (observableVector b) (i - 1))))
                            (if i \<ge> vector_length b - 1 then None
                             else Some (keySelector b (vector_at (observableVector b) (i + 1))))
                            i)]\<rparr>)
         \<and> (0 \<le> i \<and> i < vector_length b \<longrightarrow>
              itemFromIndex b i = item_of b (observableVector b ! nat i))"
  using assms
  by (simp add: vectorchanged_def setImmediate_def notifyInsertedAtIndex_attached translation_def
      keyFromIndex_def itemFromIndex_in_range)

text \<open>
  Inserted at index 1, the last position of the example vector: the previous key is 10
  and the next key is \<^verbatim>\<open>null\<close>.
\<close>

theorem itemInserted_notification_witness:
  "notificationHandler attached_adapter = Some (Handler 1)
   \<and> immediates (vectorchanged \<lparr>collectionChange = itemInserted, index = 1\<rparr> attached_adapter) =
       [CollectionChangeHandler itemInserted 1]
   \<and> map_sum id delivered (run_immediate (CollectionChangeHandler itemInserted 1) attached_adapter) =
       Inr [(Handler 1, inserted \<lparr>data = Some 20, key = 20\<rparr> (Some 10) None 1)]
   \<and> (0::int) \<le> 1 \<and> 1 < vector_length attached_adapter
   \<and> itemFromIndex attached_adapter 1 = \<lparr>data = Some 20, key = 20\<rparr>"
  using itemInserted_notification
    [of attached_adapter "Handler 1" attached_adapter "Handler 1" 1]
  by (simp add: attached_defs item_of_def vector_at_def)

text \<open>
  Claim C6. An \<open>itemRemoved\<close> event at index \<open>i\<close> that arrives while a handler is set
  schedules exactly one callback, and that callback, run with a handler set, makes
  exactly one handler call: \<open>removed\<close> with the key \<^verbatim>\<open>null\<close> and the index \<open>i\<close>.
\<close>

theorem itemRemoved_notification:
  assumes "notificationHandler a = Some h" and "notificationHandler b = Some h'"
  shows "vectorchanged \<lparr>collectionChange = itemRemoved, index = i\<rparr> a =
           a\<lparr>immediates := immediates a @ [CollectionChangeHandler itemRemoved i]\<rparr>
         \<and> run_immediate (CollectionChangeHandler itemRemoved i) b =
             Inr (b\<lparr>delivered := delivered b @ [(h', removed None i)]\<rparr>)"
  using assms
  by (simp add: vectorchanged_def setImmediate_def notify_attached)

text \<open>Removal at index 0 of the example vector.\<close>

theorem itemRemoved_notification_witness:
  "notificationHandler attached_adapter = Some (Handler 1)
   \<and> immediates (vectorchanged \<lparr>collectionChange = itemRemoved, index = 0\<rparr> attached_adapter) =
       [CollectionChangeHandler itemRemoved 0]
   \<and> map_sum id delivered (run_immediate (CollectionChangeHandler itemRemoved 0) attached_adapter) =
       Inr [(Handler 1, removed None 0)]"
  using itemRemoved_notification
    [of attached_adapter "Handler 1" attached_adapter "Handler 1" 0]
  by (simp add: attached_defs)



text \<open>
  Claim C10. A vector-change event that arrives while no handler is set leaves the
  adapter as it was: nothing is scheduled and nothing is delivered, so the event has no
  later effect. Attaching a handler afterwards gives the same state as attaching it
  without the event, and schedules only the replay.
\<close>

theorem vectorchanged_without_handler:
  assumes "notificationHandler a = None"
  shows "vectorchanged ev a = a
         \<and> vector_mutation (vec, ev) a = a\<lparr>observableVector := vec\<rparr>
         \<and> setNotificationHandler h (vectorchanged ev a) = setNotificationHandler h a
         \<and> immediates (setNotificationHandler h (vector_mutation (vec, ev) a)) =
             immediates a @ [ReplayHandler]"
  using assms
  by (simp add: vectorchanged_def vector_mutation_def setNotificationHandler_def setImmediate_def)

text \<open>
  An insertion into the example vector before any handler is attached, then attaching
  handler 1: only the replay is scheduled.
\<close>

theorem vectorchanged_without_handler_witness:
  "notificationHandler example_adapter = None
   \<and> vectorchanged \<lparr>collectionChange = itemInserted, index = 0\<rparr> example_adapter = example_adapter
   \<and> immediates (setNotificationHandler (Handler 1)
        (vector_mutation ([5, 10, 20], \<lparr>collectionChange = itemInserted, index = 0\<rparr>)
           example_adapter)) = [ReplayHandler]"
  using vectorchanged_without_handler
    [of example_adapter "\<lparr>collectionChange = itemInserted, index = 0\<rparr>" "[5, 10, 20]" "Handler 1"]
  by (simp add: example_defs setNotificationHandler_def setImmediate_def vector_mutation_def
      vectorchanged_def)

section \<open>The vector is only read\<close>

text \<open>
  Claim C9. No operation on the adapter changes the observable vector: after
  \<open>getCount\<close>, \<open>itemsFromIndex\<close>, \<open>itemsFromStart\<close>, \<open>itemsFromEnd\<close>,
  \<open>setNotificationHandler\<close>, the event listener, or a scheduled callback run by the
  host, the vector has the length and the elements it had before.
\<close>

theorem adapter_never_mutates_vector:
  "observableVector (snd (perform operation a)) = observableVector a"
proof (cases operation)
  case Tick
  show ?thesis
  proof (cases "immediates a")
    case Nil
    with Tick show ?thesis by (simp add: tick_def)
  next
    case (Cons callback rest)
    show ?thesis
    proof (cases "run_immediate callback (a\<lparr>immediates := rest\<rparr>)")
      case (Inl e)
      with Tick Cons show ?thesis by (simp add: tick_def)
    next
      case (Inr a')
      from run_immediate_vector [OF Inr] Tick Cons Inr show ?thesis by (simp add: tick_def)
    qed
  qed
qed (simp_all add: setNotificationHandler_def setImmediate_def vectorchanged_def)

section \<open>Showing a flyout\<close>

text \<open>
  Claim C8. A flyout constructed with no anchor, with none assigned and none passed,
  answers \<open>show\<close> after \<open>process\<close> with a rejected promise, not a thrown error, and
  the native control's \<open>show\<close> is not called; with an anchor given as constructor
  option, by property assignment or as argument, \<open>show\<close> calls the native control's
  \<open>show\<close> once with its argument.
\<close>

theorem flyout_show_anchor:
  "flyout_show None (flyout_process (FlyoutComponent None)) =
     (Rejected NoAnchor, flyout_process (FlyoutComponent None))
   \<and> show_calls (winControl (flyout_process (FlyoutComponent None))) = []
   \<and> fst (flyout_show None (flyout_process (FlyoutComponent (Some el)))) = Fulfilled ()
   \<and> show_calls (winControl (snd (flyout_show None (flyout_process (FlyoutComponent (Some el))))))
       = [None]
   \<and> fst (flyout_show None (flyout_process (assign_anchor el (FlyoutComponent None)))) = Fulfilled ()
   \<and> show_calls (winControl (snd (flyout_show None
        (flyout_process (assign_anchor el (FlyoutComponent None)))))) = [None]
   \<and> fst (flyout_show (Some el) (flyout_process (FlyoutComponent None))) = Fulfilled ()
   \<and> show_calls (winControl (snd (flyout_show (Some el) (flyout_process (FlyoutComponent None)))))
       = [Some el]"
  by (simp add: flyout_show_def flyout_process_def FlyoutComponent_def assign_anchor_def)

end
